theory Spec2Isabelle
  imports Complex_Main "HOL-Library.AList"
begin

section \<open>Python values and errors\<close>

text \<open>
  The script \<^verbatim>\<open>trainqgag.py\<close> is glue around third-party libraries. The model
  keeps every function of the script and takes the library calls it makes as parameters.
  An uncaught Python exception is a value \<open>Inl e\<close>, with \<open>LibraryError\<close> for an exception
  that a library raises of its own; Python floats are modelled as reals (rounding is not
  modelled).
\<close>

datatype py_error = ZeroDivisionError | KeyError | ValueError | TypeError | FileNotFoundError
  | LibraryError

text \<open>Sequencing of steps that may raise: the first exception ends the sequence.\<close>

fun py_bind :: "py_error + 'a \<Rightarrow> ('a \<Rightarrow> py_error + 'b) \<Rightarrow> py_error + 'b" where
  "py_bind (Inl e) f = Inl e"
| "py_bind (Inr x) f = f x"

text \<open>
  A dictionary with string keys, in insertion order. \<^verbatim>\<open>d[k]\<close> raises \<^verbatim>\<open>KeyError\<close> on a
  missing key; \<^verbatim>\<open>d.update(other)\<close> stores the entries of the other dictionary in order.
\<close>

definition getitem :: "(string \<times> 'v) list \<Rightarrow> string \<Rightarrow> py_error + 'v" where
  "getitem d k = (case map_of d k of None \<Rightarrow> Inl KeyError | Some v \<Rightarrow> Inr v)"

definition dict_update :: "(string \<times> 'v) list \<Rightarrow> (string \<times> 'v) list \<Rightarrow> (string \<times> 'v) list" where
  "dict_update d other = fold (\<lambda>(k, v). AList.update k v) other d"

text \<open>
  A tokenizer maps a sentence to the texts of its tokens: \<^verbatim>\<open>nlp(s)\<close> followed by
  \<^verbatim>\<open>[token.text for token in doc]\<close>. A scorer is \<^verbatim>\<open>sentence_bleu\<close>: it takes the list
  of reference token lists, the hypothesis tokens and the weights.
\<close>

type_synonym tokenizer = "string \<Rightarrow> string list"
type_synonym scorer = "string list list \<Rightarrow> string list \<Rightarrow> real list \<Rightarrow> real"

section \<open>The BLEU aggregation \<^verbatim>\<open>bleu\<close> (lines 76 to 93)\<close>

text \<open>The weight schedule \<^verbatim>\<open>ws\<close> of line 82.\<close>

definition ws :: "real list list" where
  "ws = [[1, 0, 0, 0], [0.5, 0.5, 0, 0], [0.33, 0.33, 0.33, 0], [0.25, 0.25, 0.25, 0.25]]"

text \<open>\<^verbatim>\<open>bleu_scores = {1: [], 2: [], 3: [], 4: []}\<close> is a dictionary from \<open>n\<close> to a list.\<close>

type_synonym score_dict = "nat \<rightharpoonup> real list"

definition empty_scores :: score_dict where
  "empty_scores = [1 \<mapsto> [], 2 \<mapsto> [], 3 \<mapsto> [], 4 \<mapsto> []]"

text \<open>\<^verbatim>\<open>bleu_scores[n].append(x)\<close>: the lookup raises on a missing key.\<close>

definition append_score :: "score_dict \<Rightarrow> nat \<Rightarrow> real \<Rightarrow> py_error + score_dict" where
  "append_score d n x =
     (case d n of None \<Rightarrow> Inl KeyError | Some xs \<Rightarrow> Inr (d(n \<mapsto> xs @ [x])))"

text \<open>
  The inner loop \<^verbatim>\<open>for n in range(1, 5)\<close> of lines 83 to 88. The prediction's tokens are
  passed as the only reference and the goal's tokens as the hypothesis, as line 87 does.
\<close>

fun score_orders :: "scorer \<Rightarrow> string list \<Rightarrow> string list \<Rightarrow> nat list \<Rightarrow> score_dict
    \<Rightarrow> py_error + score_dict" where
  "score_orders sb sent1_tokens sent2_tokens [] d = Inr d"
| "score_orders sb sent1_tokens sent2_tokens (n # ns) d =
     (case append_score d n (sb [sent1_tokens] sent2_tokens (ws ! (n - 1))) of
        Inl e \<Rightarrow> Inl e
      | Inr d' \<Rightarrow> score_orders sb sent1_tokens sent2_tokens ns d')"

text \<open>The outer loop \<^verbatim>\<open>for sent1, sent2 in zip(predict, goal)\<close> of lines 79 to 88.\<close>

fun score_pairs :: "tokenizer \<Rightarrow> scorer \<Rightarrow> (string \<times> string) list \<Rightarrow> score_dict
    \<Rightarrow> py_error + score_dict" where
  "score_pairs nlp sb [] d = Inr d"
| "score_pairs nlp sb ((sent1, sent2) # ps) d =
     (case score_orders sb (nlp sent1) (nlp sent2) [1..<5] d of
        Inl e \<Rightarrow> Inl e
      | Inr d' \<Rightarrow> score_pairs nlp sb ps d')"

text \<open>\<^verbatim>\<open>"BLEU{}".format(n)\<close>: the decimal digits of \<open>n\<close> after the prefix.\<close>

function str_nat :: "nat \<Rightarrow> string" where
  "str_nat n =
     (if n < 10 then [''0123456789'' ! n]
      else str_nat (n div 10) @ [''0123456789'' ! (n mod 10)])"
  by pat_completeness auto
termination
  by (relation "measure id") auto

definition format_BLEU :: "nat \<Rightarrow> string" where
  "format_BLEU n = ''BLEU'' @ str_nat n"

text \<open>
  The result dictionary, in insertion order. \<^verbatim>\<open>result[k] = v\<close> is \<open>AList.update\<close>: it
  replaces the value of a key that is present and appends a new key at the end.
\<close>

type_synonym result = "(string \<times> real) list"

text \<open>
  The second loop, lines 90 to 92: \<^verbatim>\<open>(sum(xs) / len(xs)) * 100\<close> raises
  \<^verbatim>\<open>ZeroDivisionError\<close> when the list is empty.
\<close>

fun averages :: "score_dict \<Rightarrow> nat list \<Rightarrow> result \<Rightarrow> py_error + result" where
  "averages d [] r = Inr r"
| "averages d (n # ns) r =
     (case d n of
        None \<Rightarrow> Inl KeyError
      | Some xs \<Rightarrow>
          if length xs = 0 then Inl ZeroDivisionError
          else averages d ns
                 (AList.update (format_BLEU n) ((sum_list xs / real (length xs)) * 100) r))"

definition bleu :: "tokenizer \<Rightarrow> scorer \<Rightarrow> string list \<Rightarrow> string list \<Rightarrow> py_error + result" where
  "bleu nlp sb predict goal =
     (case score_pairs nlp sb (zip predict goal) empty_scores of
        Inl e \<Rightarrow> Inl e
      | Inr bleu_scores \<Rightarrow> averages bleu_scores [1..<5] [])"

section \<open>The library functions the aggregation calls\<close>

text \<open>
  Modelled from the spec: the scoring function \<^verbatim>\<open>sentence_bleu\<close> of the \<^verbatim>\<open>nltk\<close>
  library (imported at line 13, called at line 87), whose code is not part of the script.
  The spec calls it "a standard n-gram precision formula": the brevity penalty times the
  exponential of the weighted sum of the logarithms of the modified n-gram precisions.
  The definitions follow the library's functions of the same names, without smoothing
  (\<^verbatim>\<open>method0\<close>), where a precision with numerator zero is replaced by the smallest
  positive normal float.
\<close>

definition ngrams :: "'a list \<Rightarrow> nat \<Rightarrow> 'a list list" where
  "ngrams xs n = map (\<lambda>i. take n (drop i xs)) [0..<Suc (length xs) - n]"

definition ref_max_count :: "'a list list \<Rightarrow> nat \<Rightarrow> 'a list \<Rightarrow> nat" where
  "ref_max_count references n g =
     fold (\<lambda>reference m. max m (count_list (ngrams reference n) g)) references 0"

text \<open>The precision is a fraction that is not normalised: numerator and denominator.\<close>

definition modified_precision :: "'a list list \<Rightarrow> 'a list \<Rightarrow> nat \<Rightarrow> nat \<times> nat" where
  "modified_precision references hypothesis n =
     (let counts = ngrams hypothesis n;
          numerator = sum_list (map (\<lambda>g. min (count_list counts g) (ref_max_count references n g))
                                    (remdups counts));
          denominator = max 1 (length counts)
      in (numerator, denominator))"

text \<open>
  The reference length closest to the hypothesis length, the shorter one on a tie. The
  library raises on an empty list of references; \<^verbatim>\<open>bleu\<close> always passes exactly one.
\<close>

fun closest_ref_length :: "'a list list \<Rightarrow> nat \<Rightarrow> nat" where
  "closest_ref_length [] hyp_len = 0"
| "closest_ref_length [r] hyp_len = length r"
| "closest_ref_length (r # rs) hyp_len =
     (let best = closest_ref_length rs hyp_len;
          d_r = \<bar>int (length r) - int hyp_len\<bar>;
          d_best = \<bar>int best - int hyp_len\<bar>
      in if d_r < d_best \<or> (d_r = d_best \<and> length r \<le> best) then length r else best)"

definition brevity_penalty :: "nat \<Rightarrow> nat \<Rightarrow> real" where
  "brevity_penalty closest_ref_len hyp_len =
     (if hyp_len > closest_ref_len then 1
      else if hyp_len = 0 then 0
      else exp (1 - real closest_ref_len / real hyp_len))"

text \<open>\<^verbatim>\<open>sys.float_info.min\<close>, the smallest positive normal double.\<close>

definition float_min :: real where
  "float_min = 1 / 2 ^ 1022"

definition method0 :: "(nat \<times> nat) list \<Rightarrow> real list" where
  "method0 p_n =
     map (\<lambda>(numerator, denominator).
            if numerator \<noteq> 0 then real numerator / real denominator else float_min) p_n"

definition sentence_bleu :: scorer where
  "sentence_bleu references hypothesis weights =
     (let p_n = map (modified_precision references hypothesis) [1..<Suc (length weights)];
          hyp_len = length hypothesis;
          bp = brevity_penalty (closest_ref_length references hyp_len) hyp_len
      in if fst (modified_precision references hypothesis 1) = 0 then 0
         else bp * exp (sum_list (map (\<lambda>(w_i, p_i). w_i * ln p_i)
                                      (filter (\<lambda>(w_i, p_i). p_i > 0) (zip weights (method0 p_n))))))"

text \<open>
  Modelled from the spec: the tokenizer ("tokenize"). The pipeline \<^verbatim>\<open>nlp\<close> is loaded from
  the \<^verbatim>\<open>spacy\<close> model \<^verbatim>\<open>vi_core_news_lg\<close> at line 22 and is not part of the script. The
  theorems below hold for every tokenizer; concrete instances use this one, which cuts a
  sentence at its spaces.
\<close>

fun split_acc :: "string \<Rightarrow> string \<Rightarrow> string list" where
  "split_acc cur [] = (if cur = [] then [] else [cur])"
| "split_acc cur (c # cs) =
     (if c = CHR '' '' then (if cur = [] then split_acc [] cs else cur # split_acc [] cs)
      else split_acc (cur @ [c]) cs)"

definition space_tokens :: tokenizer where
  "space_tokens s = split_acc [] s"

section \<open>What the loops of \<^verbatim>\<open>bleu\<close> collect\<close>

text \<open>
  Two abbreviations for the statements about the code: the list that the first loop has
  appended under the order \<open>n\<close> when it ends, in the code's own argument order, and the
  expression of lines 91 and 92 on such a list.
\<close>

definition pair_scores :: "tokenizer \<Rightarrow> scorer \<Rightarrow> (string \<times> string) list \<Rightarrow> nat \<Rightarrow> real list" where
  "pair_scores nlp sb ps n =
     map (\<lambda>(sent1, sent2). sb [nlp sent1] (nlp sent2) (ws ! (n - 1))) ps"

definition scaled_mean :: "real list \<Rightarrow> real" where
  "scaled_mean xs = (sum_list xs / real (length xs)) * 100"

section \<open>The aggregation as the specification words it\<close>

text \<open>
  "Iterate pairs, tokenize, call a standard n-gram precision formula, average", with the
  weight tuples (1,0,0,0), (0.5,0.5,0,0), (0.33,0.33,0.33,0) and (0.25,0.25,0.25,0.25)
  for the orders 1 to 4. The formula scores a hypothesis against its references: the
  prediction is the hypothesis and the sentence of the goal list is its one reference.
  The score of an order is the arithmetic mean over the pairs, scaled by 100. Empty
  input is rejected: there is no result.
\<close>

definition textbook_weights :: "nat \<Rightarrow> real list" where
  "textbook_weights n =
     (if n = 1 then [1, 0, 0, 0]
      else if n = 2 then [0.5, 0.5, 0, 0]
      else if n = 3 then [0.33, 0.33, 0.33, 0]
      else [0.25, 0.25, 0.25, 0.25])"

definition bleu_textbook :: "tokenizer \<Rightarrow> scorer \<Rightarrow> string list \<Rightarrow> string list
    \<Rightarrow> result option" where
  "bleu_textbook nlp sb predict goal =
     (let pairs = zip predict goal
      in if pairs = [] then None
         else Some (map (\<lambda>n. (''BLEU'' @ str_nat n,
                      100 * (sum_list (map (\<lambda>(prediction, reference).
                                sb [nlp reference] (nlp prediction) (textbook_weights n)) pairs)
                             / real (length pairs))))
                    [1, 2, 3, 4]))"

section \<open>Formatting of the examples (lines 48 to 73)\<close>

text \<open>
  A dataset example is a dictionary from column names to strings. The word segmenter
  \<^verbatim>\<open>ViTokenizer.tokenize\<close> of the \<^verbatim>\<open>pyvi\<close> library is a parameter: a function from
  strings to strings.
\<close>

type_synonym row = "(string \<times> string) list"

definition nl :: char where
  "nl = CHR 0x0A"

text \<open>
  The adjacent string literals of lines 49 to 55 and of lines 63 to 69 are concatenated
  in order; the fields are read in the order in which the literals name them.
\<close>

definition formatting_func_qg :: "(string \<Rightarrow> string) \<Rightarrow> row \<Rightarrow> py_error + row" where
  "formatting_func_qg tokenize example =
     py_bind (getitem example ''instruction_qg'') (\<lambda>instruction_qg.
     py_bind (getitem example ''context'') (\<lambda>context.
     py_bind (getitem example ''answer'') (\<lambda>answer.
     let input_seq = ''### Instruction: '' @ [nl]
                     @ instruction_qg @ [nl, nl]
                     @ ''### Context: '' @ [nl]
                     @ tokenize context @ [nl, nl]
                     @ ''### Answer: '' @ [nl]
                     @ tokenize answer @ [nl, nl]
                     @ [nl, nl] @ ''### Response: '' @ [nl]
     in py_bind (getitem example ''question'') (\<lambda>question.
        let output_seq = tokenize question
        in Inr [(''input_seq'', input_seq), (''output_seq'', output_seq)]))))"

definition formatting_func_ag :: "(string \<Rightarrow> string) \<Rightarrow> row \<Rightarrow> py_error + row" where
  "formatting_func_ag tokenize example =
     py_bind (getitem example ''instruction_ag'') (\<lambda>instruction_ag.
     py_bind (getitem example ''context'') (\<lambda>context.
     py_bind (getitem example ''question'') (\<lambda>question.
     let input_seq = ''### Instruction: '' @ [nl]
                     @ instruction_ag @ [nl, nl]
                     @ ''### Context: '' @ [nl]
                     @ tokenize context @ [nl, nl]
                     @ ''### Question: '' @ [nl]
                     @ tokenize question @ [nl, nl]
                     @ [nl, nl] @ ''### Response: '' @ [nl]
     in py_bind (getitem example ''answer'') (\<lambda>answer.
        let output_seq = tokenize answer
        in Inr [(''input_seq'', input_seq), (''output_seq'', output_seq)]))))"

text \<open>
  The instruction-style text both functions build, as a template: the instruction, the
  context, a third section with its label, and the response header.
\<close>

definition instruction_prompt :: "string \<Rightarrow> string \<Rightarrow> string \<Rightarrow> string \<Rightarrow> string" where
  "instruction_prompt instruction context label third =
     concat [''### Instruction: '', [nl], instruction, [nl, nl],
             ''### Context: '', [nl], context, [nl, nl],
             ''### '', label, '': '', [nl], third, [nl, nl],
             [nl, nl], ''### Response: '', [nl]]"

section \<open>Configuration (lines 25 to 45)\<close>

record Config =
  model_name :: string
  dataset_name :: string
  pretrained_model_name_or_path :: string
  checkpoint :: string
  task :: string
  tgt_len :: int
  src_len :: int
  seed :: int
  num_proc :: int
  per_device_train_batch_size :: int
  per_device_eval_batch_size :: int
  num_epochs :: int
  lr :: real
  warmup_ratio :: real
  weight_decay :: real

definition post_init :: "Config \<Rightarrow> Config" where
  "post_init self =
     (if model_name self = ''bartpho''
      then self\<lparr>pretrained_model_name_or_path := ''vinai/bartpho-word-base''\<rparr>
      else self)"

text \<open>
  \<^verbatim>\<open>Config(model_name)\<close>, as line 225 calls the constructor: the first field from the
  argument, every other field at its default, then \<^verbatim>\<open>__post_init__\<close>.
\<close>

definition Config_init :: "string \<Rightarrow> Config" where
  "Config_init name =
     post_init \<lparr>model_name = name, dataset_name = ''vinewsqa'',
       pretrained_model_name_or_path = ''VietAI/vit5-base'',
       checkpoint = ''/kaggle/working/cp'', task = ''ag'',
       tgt_len = 256, src_len = 1024, seed = 42, num_proc = 16,
       per_device_train_batch_size = 4, per_device_eval_batch_size = 16,
       num_epochs = 10, lr = 1 / 10000, warmup_ratio = 0.05, weight_decay = 0.015\<rparr>"

section \<open>The libraries and the files\<close>

text \<open>
  JSON values, and a written file: the value dumped together with the settings of
  \<^verbatim>\<open>open(..., 'w', encoding='utf-8')\<close> and \<^verbatim>\<open>json.dump(..., ensure_ascii=False, indent=2)\<close>.
  The file system maps a path to the file last written there.
\<close>

datatype json = JString string | JNumber real | JNaN | JArray "json list"
  | JObject "(string \<times> json) list"

record json_file =
  encoding :: string
  ensure_ascii :: bool
  indent :: nat
  content :: json

type_synonym fs = "string \<rightharpoonup> json_file"

definition json_dump :: "json \<Rightarrow> json_file" where
  "json_dump obj = \<lparr>encoding = ''utf-8'', ensure_ascii = False, indent = 2, content = obj\<rparr>"

definition json_load :: "fs \<Rightarrow> string \<Rightarrow> py_error + json" where
  "json_load files path =
     (case files path of None \<Rightarrow> Inl FileNotFoundError | Some f \<Rightarrow> Inr (content f))"

definition os_path_join :: "string \<Rightarrow> string \<Rightarrow> string" where
  "os_path_join a b =
     (if b \<noteq> [] \<and> hd b = CHR ''/'' then b
      else if a = [] \<or> last a = CHR ''/'' then a @ b
      else a @ ''/'' @ b)"

text \<open>
  The calls into the libraries are the fields of one record: the dataset hub, the word
  segmenter, the tokenizer and scorer of \<^verbatim>\<open>bleu\<close>, the loading of the pretrained
  tokenizer and model, the tokenization of a dataset, the training, the batched
  generation with its decoding (per batch, the decoded outputs and the decoded labels),
  and the three other metrics. A call that raises returns \<open>Inl\<close>. The objects of the
  libraries (tokenizer, model, tokenized dataset) have the type \<open>'o\<close>.
\<close>

record 'o library =
  load_dataset :: "string \<Rightarrow> py_error + (string \<times> row list) list"
  vi_tokenize :: "string \<Rightarrow> string"
  spacy_nlp :: tokenizer
  nltk_sentence_bleu :: scorer
  tokenizer_from_pretrained :: "string \<Rightarrow> py_error + 'o"
  model_from_pretrained :: "string \<Rightarrow> py_error + 'o"
  tokenize_dataset :: "Config \<Rightarrow> 'o \<Rightarrow> row list \<Rightarrow> py_error + 'o"
  trainer_train :: "Config \<Rightarrow> 'o \<Rightarrow> 'o \<Rightarrow> 'o \<Rightarrow> 'o \<Rightarrow> py_error + 'o"
  generate_decoded :: "Config \<Rightarrow> 'o \<Rightarrow> 'o \<Rightarrow> 'o \<Rightarrow> py_error + (string list \<times> string list) list"
  rouge_compute :: "string list \<Rightarrow> string list \<Rightarrow> py_error + (string \<times> real) list"
  meteor_compute :: "string list \<Rightarrow> string list \<Rightarrow> py_error + json"
  bertscore_f1 :: "string list \<Rightarrow> string list \<Rightarrow> py_error + real list"

section \<open>Preparing the data (lines 96 to 116)\<close>

text \<open>
  A dataset split is the list of its rows. \<^verbatim>\<open>Dataset.map(f)\<close> calls \<open>f\<close> on each row and
  stores the entries it returns in the row; \<^verbatim>\<open>remove_columns\<close> raises when a column is
  missing and drops the columns otherwise.
\<close>

fun dataset_map :: "(row \<Rightarrow> py_error + row) \<Rightarrow> row list \<Rightarrow> py_error + row list" where
  "dataset_map f [] = Inr []"
| "dataset_map f (example # rest) =
     py_bind (f example) (\<lambda>out.
     py_bind (dataset_map f rest) (\<lambda>rest'. Inr (dict_update example out # rest')))"

definition remove_columns :: "string list \<Rightarrow> row list \<Rightarrow> py_error + row list" where
  "remove_columns cols rows =
     (if list_ex (\<lambda>r. list_ex (\<lambda>c. map_of r c = None) cols) rows then Inl ValueError
      else Inr (map (filter (\<lambda>(k, v). k \<notin> set cols)) rows))"

text \<open>One of the six expressions \<^verbatim>\<open>ds.map(f, num_proc=...).remove_columns([...])\<close>.\<close>

definition map_remove :: "(row \<Rightarrow> py_error + row) \<Rightarrow> row list \<Rightarrow> py_error + row list" where
  "map_remove f ds =
     py_bind (dataset_map f ds)
       (remove_columns [''instruction_qg'', ''instruction_ag'', ''context'', ''question'', ''answer''])"

definition prepare_data :: "'o library \<Rightarrow> Config \<Rightarrow> py_error + (row list \<times> row list \<times> row list)" where
  "prepare_data lib conf =
     py_bind (load_dataset lib (''shnl/'' @ dataset_name conf)) (\<lambda>data.
     py_bind (getitem data ''train'') (\<lambda>train_dataset.
     py_bind (getitem data ''validation'') (\<lambda>dev_dataset.
     py_bind (getitem data ''test'') (\<lambda>test_dataset.
     if task conf = ''qg'' then
       py_bind (map_remove (formatting_func_qg (vi_tokenize lib)) train_dataset) (\<lambda>train_dataset.
       py_bind (map_remove (formatting_func_qg (vi_tokenize lib)) dev_dataset) (\<lambda>dev_dataset.
       py_bind (map_remove (formatting_func_qg (vi_tokenize lib)) test_dataset) (\<lambda>test_dataset.
       Inr (train_dataset, dev_dataset, test_dataset))))
     else
       py_bind (map_remove (formatting_func_ag (vi_tokenize lib)) train_dataset) (\<lambda>train_dataset.
       py_bind (map_remove (formatting_func_ag (vi_tokenize lib)) dev_dataset) (\<lambda>dev_dataset.
       py_bind (map_remove (formatting_func_ag (vi_tokenize lib)) test_dataset) (\<lambda>test_dataset.
       Inr (train_dataset, dev_dataset, test_dataset))))))))"

text \<open>
  The preparation with one formatting function for the three splits: what
  \<^verbatim>\<open>prepare_data\<close> is compared with.
\<close>

definition prepare_with :: "(row \<Rightarrow> py_error + row) \<Rightarrow> 'o library \<Rightarrow> Config
    \<Rightarrow> py_error + (row list \<times> row list \<times> row list)" where
  "prepare_with f lib conf =
     py_bind (load_dataset lib (''shnl/'' @ dataset_name conf)) (\<lambda>data.
     py_bind (getitem data ''train'') (\<lambda>train_dataset.
     py_bind (getitem data ''validation'') (\<lambda>dev_dataset.
     py_bind (getitem data ''test'') (\<lambda>test_dataset.
     py_bind (map_remove f train_dataset) (\<lambda>train_dataset.
     py_bind (map_remove f dev_dataset) (\<lambda>dev_dataset.
     py_bind (map_remove f test_dataset) (\<lambda>test_dataset.
     Inr (train_dataset, dev_dataset, test_dataset))))))))"

section \<open>Generation, training and \<^verbatim>\<open>main\<close> (lines 119 to 270)\<close>

text \<open>
  The dictionary that \<^verbatim>\<open>compute_metric\<close> returns is indexed with the integer \<open>0\<close> at
  line 241, so its keys are Python values: strings or integers, never equal to each other.
\<close>

datatype pykey = StrKey string | IntKey int

definition getitem_key :: "(pykey \<times> 'v) list \<Rightarrow> pykey \<Rightarrow> py_error + 'v" where
  "getitem_key d k = (case map_of d k of None \<Rightarrow> Inl KeyError | Some v \<Rightarrow> Inr v)"

text \<open>The loop of lines 131 to 144: the lists grow by each batch's decoded strings.\<close>

fun extend_all :: "(string list \<times> string list) list \<Rightarrow> string list \<times> string list
    \<Rightarrow> string list \<times> string list" where
  "extend_all [] (predictions, references) = (predictions, references)"
| "extend_all ((outputs, actuals) # batches) (predictions, references) =
     extend_all batches (predictions @ outputs, references @ actuals)"

definition compute_metric :: "'o library \<Rightarrow> Config \<Rightarrow> 'o \<Rightarrow> 'o \<Rightarrow> 'o \<Rightarrow> fs
    \<Rightarrow> fs \<times> (py_error + (pykey \<times> string list) list)" where
  "compute_metric lib conf model tokenizer tokenized_test files =
     (case generate_decoded lib conf model tokenizer tokenized_test of
        Inl e \<Rightarrow> (files, Inl e)
      | Inr batches \<Rightarrow>
          (case extend_all batches ([], []) of
             (predictions, references) \<Rightarrow>
               (files(os_path_join (checkpoint conf) ''results.json'' \<mapsto>
                  json_dump (JObject [(''predictions'', JArray (map JString predictions)),
                                      (''references'', JArray (map JString references))])),
                Inr [(StrKey ''predictions'', predictions),
                     (StrKey ''references'', references)])))"

text \<open>\<^verbatim>\<open>test_set['output_seq']\<close>: the values of a column.\<close>

fun column :: "row list \<Rightarrow> string \<Rightarrow> py_error + string list" where
  "column [] k = Inr []"
| "column (r # rs) k =
     py_bind (getitem r k) (\<lambda>v. py_bind (column rs k) (\<lambda>vs. Inr (v # vs)))"

definition preprocess_and_train :: "'o library \<Rightarrow> Config \<Rightarrow> 'o \<Rightarrow> 'o
    \<Rightarrow> row list \<Rightarrow> row list \<Rightarrow> row list \<Rightarrow> fs
    \<Rightarrow> fs \<times> (py_error + (pykey \<times> string list) list)" where
  "preprocess_and_train lib conf model tokenizer train_set val_set test_set files =
     (case py_bind (tokenize_dataset lib conf tokenizer train_set) (\<lambda>tokenized_train.
           py_bind (tokenize_dataset lib conf tokenizer val_set) (\<lambda>tokenized_val.
           py_bind (tokenize_dataset lib conf tokenizer test_set) (\<lambda>tokenized_test.
           py_bind (column test_set ''output_seq'') (\<lambda>refs.
           Inr (tokenized_train, tokenized_val, tokenized_test, refs))))) of
        Inl e \<Rightarrow> (files, Inl e)
      | Inr (tokenized_train, tokenized_val, tokenized_test, refs) \<Rightarrow>
          (let files1 = files(os_path_join (checkpoint conf) ''origin_refs.json'' \<mapsto>
                 json_dump (JObject [(''references'', JArray (map JString refs))]))
           in case trainer_train lib conf model tokenizer tokenized_train tokenized_val of
                Inl e \<Rightarrow> (files1, Inl e)
              | Inr trained \<Rightarrow> compute_metric lib conf trained tokenizer tokenized_test files1))"

text \<open>
  \<^verbatim>\<open>main\<close> in two parts. Lines 225 to 240: the configuration, the pretrained tokenizer and
  model, the data, the training with the generation.
\<close>

definition main_setup :: "'o library \<Rightarrow> string \<Rightarrow> fs
    \<Rightarrow> fs \<times> (py_error + Config \<times> (pykey \<times> string list) list)" where
  "main_setup lib name files =
     (let conf = Config_init name
      in case py_bind (tokenizer_from_pretrained lib (pretrained_model_name_or_path conf)) (\<lambda>tokenizer.
              py_bind (model_from_pretrained lib (pretrained_model_name_or_path conf)) (\<lambda>model.
              py_bind (prepare_data lib conf) (\<lambda>(train_dataset, dev_dataset, test_dataset).
              Inr (tokenizer, model, train_dataset, dev_dataset, test_dataset)))) of
           Inl e \<Rightarrow> (files, Inl e)
         | Inr (tokenizer, model, train_dataset, dev_dataset, test_dataset) \<Rightarrow>
             (case preprocess_and_train lib conf model tokenizer
                     train_dataset dev_dataset test_dataset files of
                (files1, Inl e) \<Rightarrow> (files1, Inl e)
              | (files1, Inr outputs) \<Rightarrow> (files1, Inr (conf, outputs))))"

text \<open>The strings of a JSON array, for the lists read back from the results file.\<close>

fun json_strings :: "json \<Rightarrow> py_error + string list" where
  "json_strings (JArray []) = Inr []"
| "json_strings (JArray (JString s # js)) =
     py_bind (json_strings (JArray js)) (\<lambda>ss. Inr (s # ss))"
| "json_strings _ = Inl TypeError"

definition json_getitem :: "json \<Rightarrow> string \<Rightarrow> py_error + json" where
  "json_getitem j k = (case j of JObject d \<Rightarrow> getitem d k | _ \<Rightarrow> Inl TypeError)"

text \<open>\<^verbatim>\<open>np.array(xs).mean()\<close> is not a number for an empty list.\<close>

definition np_mean :: "real list \<Rightarrow> json" where
  "np_mean xs = (if xs = [] then JNaN else JNumber (sum_list xs / real (length xs)))"

text \<open>
  Lines 241 to 270: \<^verbatim>\<open>print(outputs[0])\<close>, then the results file is read back, the four
  metrics are computed and the scores file is written.
\<close>

definition main_scoring :: "'o library \<Rightarrow> Config \<Rightarrow> (pykey \<times> string list) list \<Rightarrow> fs
    \<Rightarrow> fs \<times> (py_error + unit)" where
  "main_scoring lib conf outputs files =
     (case py_bind (getitem_key outputs (IntKey 0)) (\<lambda>printed.
           py_bind (json_load files (checkpoint conf @ ''/results.json'')) (\<lambda>data.
           py_bind (py_bind (json_getitem data ''predictions'') json_strings) (\<lambda>pred.
           py_bind (py_bind (json_getitem data ''references'') json_strings) (\<lambda>ref.
           py_bind (bleu (spacy_nlp lib) (nltk_sentence_bleu lib) pred ref) (\<lambda>bleu_score.
           py_bind (rouge_compute lib pred ref) (\<lambda>rouge.
           let rouge_results = map (\<lambda>(k, v). JObject [(k, JNumber (v * 100))]) rouge
           in py_bind (meteor_compute lib pred ref) (\<lambda>meteor_results.
              py_bind (bertscore_f1 lib pred ref) (\<lambda>f1.
              let bert_mean_f1 = np_mean f1
              in Inr (JObject
                   [(''bleu_score'', JObject (map (\<lambda>(k, v). (k, JNumber v)) bleu_score)),
                    (''rouge_results'', JArray rouge_results),
                    (''meteor_results'', meteor_results),
                    (''bert_score_mean_f1'', bert_mean_f1)]))))))))) of
        Inl e \<Rightarrow> (files, Inl e)
      | Inr results \<Rightarrow>
          (files(checkpoint conf @ ''/scores.json'' \<mapsto> json_dump results), Inr ()))"

definition main :: "'o library \<Rightarrow> string \<Rightarrow> fs \<Rightarrow> fs \<times> (py_error + unit)" where
  "main lib name files =
     (case main_setup lib name files of
        (files1, Inl e) \<Rightarrow> (files1, Inl e)
      | (files1, Inr (conf, outputs)) \<Rightarrow> main_scoring lib conf outputs files1)"

text \<open>
  \<^verbatim>\<open>main\<close> as it would be if it ran the answer-generation task and nothing else: the
  same lines, with the data prepared by \<^verbatim>\<open>formatting_func_ag\<close> alone. This is what
  \<^verbatim>\<open>main\<close> is compared with.
\<close>

definition main_setup_ag :: "'o library \<Rightarrow> string \<Rightarrow> fs
    \<Rightarrow> fs \<times> (py_error + Config \<times> (pykey \<times> string list) list)" where
  "main_setup_ag lib name files =
     (let conf = Config_init name
      in case py_bind (tokenizer_from_pretrained lib (pretrained_model_name_or_path conf)) (\<lambda>tokenizer.
              py_bind (model_from_pretrained lib (pretrained_model_name_or_path conf)) (\<lambda>model.
              py_bind (prepare_with (formatting_func_ag (vi_tokenize lib)) lib conf)
                (\<lambda>(train_dataset, dev_dataset, test_dataset).
              Inr (tokenizer, model, train_dataset, dev_dataset, test_dataset)))) of
           Inl e \<Rightarrow> (files, Inl e)
         | Inr (tokenizer, model, train_dataset, dev_dataset, test_dataset) \<Rightarrow>
             (case preprocess_and_train lib conf model tokenizer
                     train_dataset dev_dataset test_dataset files of
                (files1, Inl e) \<Rightarrow> (files1, Inl e)
              | (files1, Inr outputs) \<Rightarrow> (files1, Inr (conf, outputs))))"

definition main_ag :: "'o library \<Rightarrow> string \<Rightarrow> fs \<Rightarrow> fs \<times> (py_error + unit)" where
  "main_ag lib name files =
     (case main_setup_ag lib name files of
        (files1, Inl e) \<Rightarrow> (files1, Inl e)
      | (files1, Inr (conf, outputs)) \<Rightarrow> main_scoring lib conf outputs files1)"

text \<open>Concrete instances use this example and this stand-in for the word segmenter.\<close>

definition example_row :: row where
  "example_row = [(''instruction_qg'', ''ask''), (''instruction_ag'', ''reply''),
                  (''context'', ''a b''), (''question'', ''c d''), (''answer'', ''e f'')]"

definition join_syllables :: "string \<Rightarrow> string" where
  "join_syllables s = map (\<lambda>c. if c = CHR '' '' then CHR ''_'' else c) s"

text \<open>
  A stand-in for the libraries: every split of the hub holds the one example, loading,
  tokenizing and training succeed, and the generation yields one batch of one sentence.
\<close>

definition demo_library :: "nat library" where
  "demo_library =
     \<lparr>load_dataset = (\<lambda>name. Inr [(''train'', [example_row]), (''validation'', [example_row]),
                                  (''test'', [example_row])]),
      vi_tokenize = join_syllables,
      spacy_nlp = space_tokens,
      nltk_sentence_bleu = sentence_bleu,
      tokenizer_from_pretrained = (\<lambda>path. Inr 0),
      model_from_pretrained = (\<lambda>path. Inr 1),
      tokenize_dataset = (\<lambda>conf tokenizer rows. Inr 2),
      trainer_train = (\<lambda>conf model tokenizer tokenized_train tokenized_val. Inr 3),
      generate_decoded = (\<lambda>conf model tokenizer tokenized_test. Inr [([''e f''], [''e_f''])]),
      rouge_compute = (\<lambda>pred ref. Inr [(''rouge1'', 1 / 2)]),
      meteor_compute = (\<lambda>pred ref. Inr (JObject [(''meteor'', JNumber (1 / 2))])),
      bertscore_f1 = (\<lambda>pred ref. Inr [1 / 2])\<rparr>"

section \<open>Properties of the BLEU aggregation\<close>

lemma upt_1_5: "[Suc 0..<5] = [Suc 0, 2, 3, 4]"
  by (simp add: upt_rec)

subsection \<open>What the two loops compute\<close>

lemma score_orders_appends:
  "distinct ns \<Longrightarrow> set ns \<subseteq> dom d \<Longrightarrow>
   score_orders sb t1 t2 ns d =
     Inr (\<lambda>k. if k \<in> set ns then map_option (\<lambda>xs. xs @ [sb [t1] t2 (ws ! (k - 1))]) (d k) else d k)"
proof (induction ns arbitrary: d)
  case Nil
  then show ?case by simp
next
  case (Cons n ns)
  from Cons.prems obtain xs where xs: "d n = Some xs" by auto
  let ?d = "d(n \<mapsto> xs @ [sb [t1] t2 (ws ! (n - 1))])"
  have step: "append_score d n (sb [t1] t2 (ws ! (n - 1))) = Inr ?d"
    by (simp add: append_score_def xs)
  have "distinct ns" using Cons.prems by simp
  moreover have "set ns \<subseteq> dom ?d" using Cons.prems by auto
  ultimately have ih: "score_orders sb t1 t2 ns ?d =
     Inr (\<lambda>k. if k \<in> set ns then map_option (\<lambda>xs. xs @ [sb [t1] t2 (ws ! (k - 1))]) (?d k) else ?d k)"
    by (rule Cons.IH)
  have "n \<notin> set ns" using Cons.prems by simp
  then show ?case
    unfolding score_orders.simps step sum.case ih
    by (auto simp: xs intro!: ext)
qed

lemma score_pairs_appends:
  "set [1..<5] \<subseteq> dom d \<Longrightarrow>
   score_pairs nlp sb ps d =
     Inr (\<lambda>k. if k \<in> set [1..<5] then map_option (\<lambda>xs. xs @ pair_scores nlp sb ps k) (d k) else d k)"
proof (induction ps arbitrary: d)
  case Nil
  then show ?case by (auto simp: pair_scores_def intro!: ext split: option.splits)
next
  case (Cons p ps)
  obtain sent1 sent2 where p: "p = (sent1, sent2)" by (cases p)
  let ?d = "\<lambda>k. if k \<in> set [1..<5]
      then map_option (\<lambda>xs. xs @ [sb [nlp sent1] (nlp sent2) (ws ! (k - 1))]) (d k) else d k"
  have inner: "score_orders sb (nlp sent1) (nlp sent2) [1..<5] d = Inr ?d"
    using Cons.prems by (intro score_orders_appends) simp_all
  have "set [1..<5] \<subseteq> dom ?d" using Cons.prems by (auto simp: dom_def)
  then have ih: "score_pairs nlp sb ps ?d =
     Inr (\<lambda>k. if k \<in> set [1..<5] then map_option (\<lambda>xs. xs @ pair_scores nlp sb ps k) (?d k) else ?d k)"
    by (rule Cons.IH)
  show ?case
    unfolding p score_pairs.simps inner sum.case ih
    by (auto simp: pair_scores_def option.map_comp comp_def intro!: ext)
qed

lemma score_pairs_empty_scores:
  "score_pairs nlp sb ps empty_scores =
     Inr (\<lambda>k. if k \<in> set [1..<5] then Some (pair_scores nlp sb ps k) else None)"
proof -
  have dom: "set [1..<5] \<subseteq> dom empty_scores"
    by (auto simp: empty_scores_def)
  show ?thesis
    unfolding score_pairs_appends [OF dom]
    by (auto simp: empty_scores_def intro!: ext)
qed

lemma format_BLEU_simps:
  "format_BLEU (Suc 0) = ''BLEU1''" "format_BLEU 2 = ''BLEU2''"
  "format_BLEU 3 = ''BLEU3''" "format_BLEU 4 = ''BLEU4''"
  by (simp_all add: format_BLEU_def)

lemma bleu_characterisation:
  "bleu nlp sb predict goal =
     (if zip predict goal = [] then Inl ZeroDivisionError
      else Inr [(''BLEU1'', scaled_mean (pair_scores nlp sb (zip predict goal) 1)),
                (''BLEU2'', scaled_mean (pair_scores nlp sb (zip predict goal) 2)),
                (''BLEU3'', scaled_mean (pair_scores nlp sb (zip predict goal) 3)),
                (''BLEU4'', scaled_mean (pair_scores nlp sb (zip predict goal) 4))])"
proof (cases "zip predict goal = []")
  case True
  have "bleu nlp sb predict goal = averages empty_scores [1..<5] []"
    unfolding bleu_def True by simp
  also have "\<dots> = Inl ZeroDivisionError"
    by (simp add: upt_1_5 empty_scores_def)
  finally show ?thesis using True by simp
next
  case False
  then have "pair_scores nlp sb (zip predict goal) n \<noteq> []" for n
    by (simp add: pair_scores_def)
  with False show ?thesis
    unfolding bleu_def score_pairs_empty_scores sum.case
    by (simp add: upt_1_5 format_BLEU_simps scaled_mean_def)
qed

lemma bleu_entries:
  assumes "zip predict goal \<noteq> []"
  shows "\<exists>r. bleu nlp sb predict goal = Inr r
     \<and> map fst r = [''BLEU1'', ''BLEU2'', ''BLEU3'', ''BLEU4'']
     \<and> (\<forall>n \<in> {1, 2, 3, 4}. map_of r (format_BLEU n)
            = Some (scaled_mean (pair_scores nlp sb (zip predict goal) n)))"
  using assms unfolding bleu_characterisation
  by (simp add: format_BLEU_simps)

lemma zip_same: "zip xs xs = map (\<lambda>x. (x, x)) xs"
  by (induction xs) simp_all

lemma scaled_mean_ones: "xs \<noteq> [] \<Longrightarrow> \<forall>x \<in> set xs. x = 1 \<Longrightarrow> scaled_mean xs = 100"
proof -
  assume ne: "xs \<noteq> []" and one: "\<forall>x \<in> set xs. x = 1"
  then have "xs = replicate (length xs) 1"
    by (simp add: replicate_length_same)
  then have "sum_list xs = real (length xs)"
    by (metis sum_list_replicate mult.right_neutral)
  then show ?thesis using ne by (simp add: scaled_mean_def)
qed

lemma scaled_mean_bounds:
  assumes "xs \<noteq> []" and "\<forall>x \<in> set xs. 0 \<le> x \<and> x \<le> 1"
  shows "0 \<le> scaled_mean xs \<and> scaled_mean xs \<le> 100"
proof -
  have len: "0 < real (length xs)" using assms(1) by simp
  have "sum_list xs \<le> sum_list (map (\<lambda>x. 1) xs)"
    using assms(2) sum_list_mono [of xs "\<lambda>x. x" "\<lambda>x. 1"] by simp
  then have up: "sum_list xs \<le> real (length xs)"
    by (simp add: sum_list_triv)
  have lo: "0 \<le> sum_list xs"
    using assms(2) by (simp add: sum_list_nonneg)
  define m where "m = sum_list xs / real (length xs)"
  have "m \<le> 1"
    using up len by (simp add: m_def)
  moreover have "0 \<le> m"
    using lo by (simp add: m_def)
  ultimately have "0 \<le> m * 100 \<and> m * 100 \<le> 100" by simp
  then show ?thesis unfolding scaled_mean_def m_def .
qed

lemma zip_take_min:
  "zip (take (min (length xs) (length ys)) xs) (take (min (length xs) (length ys)) ys) = zip xs ys"
  by (induction xs ys rule: list_induct2') simp_all

lemma sum_list_zip_nth:
  "sum_list (map f (zip xs ys)) = (\<Sum>i < min (length xs) (length ys). f (xs ! i, ys ! i))"
proof -
  have "sum_list (map f (zip xs ys)) = (\<Sum>i = 0..<length (zip xs ys). map f (zip xs ys) ! i)"
    by (subst sum_list_sum_nth) simp
  also have "\<dots> = (\<Sum>i = 0..<min (length xs) (length ys). f (xs ! i, ys ! i))"
    by (rule sum.cong) simp_all
  finally show ?thesis by (simp add: lessThan_atLeast0)
qed

subsection \<open>The scorer: bounds and identical sentences\<close>

lemma sum_count_remdups: "sum_list (map (count_list xs) (remdups xs)) = length xs"
proof -
  have "sum_list (map (count_list xs) (remdups xs)) = sum (count_list xs) (set (remdups xs))"
    by (rule sum_list_distinct_conv_sum_set) simp
  also have "\<dots> = length xs"
    by (simp add: sum_count_set)
  finally show ?thesis .
qed

lemma clipped_le_length:
  "sum_list (map (\<lambda>g. min (count_list xs g) (m g)) (remdups xs)) \<le> length xs"
proof -
  have "sum_list (map (\<lambda>g. min (count_list xs g) (m g)) (remdups xs))
        \<le> sum_list (map (count_list xs) (remdups xs))"
    by (rule sum_list_mono) simp
  then show ?thesis by (simp add: sum_count_remdups)
qed

lemma modified_precision_bounds:
  "fst (modified_precision references hypothesis n) \<le> snd (modified_precision references hypothesis n)"
  "0 < snd (modified_precision references hypothesis n)"
proof -
  have "sum_list (map (\<lambda>g. min (count_list (ngrams hypothesis n) g) (ref_max_count references n g))
          (remdups (ngrams hypothesis n))) \<le> max 1 (length (ngrams hypothesis n))"
    using clipped_le_length [of "ngrams hypothesis n" "ref_max_count references n"] by simp
  then show "fst (modified_precision references hypothesis n) \<le> snd (modified_precision references hypothesis n)"
    by (simp add: modified_precision_def Let_def)
  show "0 < snd (modified_precision references hypothesis n)"
    by (simp add: modified_precision_def Let_def)
qed

lemma float_min_bounds: "0 < float_min" "float_min \<le> 1"
  by (simp_all add: float_min_def)

lemma method0_bounds:
  assumes "p \<in> set (method0 (map (modified_precision references hypothesis) ns))"
  shows "0 < p \<and> p \<le> 1"
proof -
  from assms obtain n where p: "p = (case modified_precision references hypothesis n of
      (numerator, denominator) \<Rightarrow>
        if numerator \<noteq> 0 then real numerator / real denominator else float_min)"
    by (auto simp: method0_def)
  obtain a b where ab: "modified_precision references hypothesis n = (a, b)"
    by (cases "modified_precision references hypothesis n")
  have "a \<le> b" "0 < b"
    using modified_precision_bounds [of references hypothesis n] by (simp_all add: ab)
  then show ?thesis
    by (auto simp: p ab float_min_bounds)
qed

lemma weighted_logs_nonpos:
  assumes "\<forall>w \<in> set weights. 0 \<le> w" and "\<forall>p \<in> set ps. 0 < p \<and> p \<le> (1::real)"
  shows "sum_list (map (\<lambda>(w_i, p_i). w_i * ln p_i)
           (filter (\<lambda>(w_i, p_i). p_i > 0) (zip weights ps))) \<le> 0"
proof -
  have "sum_list (map (\<lambda>(w_i, p_i). w_i * ln p_i)
           (filter (\<lambda>(w_i, p_i). p_i > 0) (zip weights ps)))
        \<le> sum_list (map (\<lambda>x. 0) (filter (\<lambda>(w_i, p_i). p_i > 0) (zip weights ps)))"
  proof (rule sum_list_mono)
    fix x assume "x \<in> set (filter (\<lambda>(w_i, p_i). p_i > 0) (zip weights ps))"
    then obtain w p where x: "x = (w, p)" and "w \<in> set weights" "p \<in> set ps"
      by (auto dest: set_zip_leftD set_zip_rightD)
    with assms have "0 \<le> w" "0 < p" "p \<le> 1" by auto
    then have "w * ln p \<le> 0"
      by (simp add: mult_nonneg_nonpos)
    then show "(case x of (w_i, p_i) \<Rightarrow> w_i * ln p_i) \<le> 0" by (simp add: x)
  qed
  then show ?thesis by simp
qed

lemma brevity_penalty_bounds: "0 \<le> brevity_penalty r h" "brevity_penalty r h \<le> 1"
proof -
  show "0 \<le> brevity_penalty r h" by (simp add: brevity_penalty_def)
  show "brevity_penalty r h \<le> 1"
  proof (cases "h > r \<or> h = 0")
    case True
    then show ?thesis by (auto simp: brevity_penalty_def)
  next
    case False
    then have "0 < h" "h \<le> r" by auto
    then have "1 \<le> real r / real h" by simp
    then show ?thesis using False by (simp add: brevity_penalty_def)
  qed
qed

lemma sentence_bleu_bounds:
  assumes "\<forall>w \<in> set weights. 0 \<le> w"
  shows "0 \<le> sentence_bleu references hypothesis weights"
    and "sentence_bleu references hypothesis weights \<le> 1"
proof -
  let ?ps = "method0 (map (modified_precision references hypothesis) [1..<Suc (length weights)])"
  let ?s = "sum_list (map (\<lambda>(w_i, p_i). w_i * ln p_i) (filter (\<lambda>(w_i, p_i). p_i > 0) (zip weights ?ps)))"
  let ?bp = "brevity_penalty (closest_ref_length references (length hypothesis)) (length hypothesis)"
  have "?s \<le> 0"
    using assms method0_bounds by (intro weighted_logs_nonpos) blast+
  then have e: "exp ?s \<le> 1" by simp
  have bp: "0 \<le> ?bp" "?bp \<le> 1" by (rule brevity_penalty_bounds)+
  have "0 \<le> ?bp * exp ?s" using bp by simp
  moreover have "?bp * exp ?s \<le> 1"
    using bp e by (simp add: mult_le_one)
  ultimately show "0 \<le> sentence_bleu references hypothesis weights"
    and "sentence_bleu references hypothesis weights \<le> 1"
    by (simp_all add: sentence_bleu_def Let_def)
qed

lemma ws_nonneg: "n \<in> {1, 2, 3, 4} \<Longrightarrow> \<forall>w \<in> set (ws ! (n - 1)). 0 \<le> w"
  by (auto simp: ws_def)

lemma length_ngrams: "length (ngrams xs n) = Suc (length xs) - n"
  by (simp add: ngrams_def)

lemma modified_precision_identical:
  "modified_precision [t] t n = (Suc (length t) - n, max 1 (Suc (length t) - n))"
  by (simp add: modified_precision_def Let_def ref_max_count_def sum_count_remdups length_ngrams)

lemma method0_identical:
  "method0 (map (modified_precision [t] t) ns) =
     map (\<lambda>n. if n \<le> length t then 1 else float_min) ns"
  by (auto simp: method0_def modified_precision_identical max_def)

lemma weighted_logs_identical:
  "\<forall>i < length weights. weights ! i \<noteq> 0 \<longrightarrow> j + i \<le> k \<Longrightarrow>
   sum_list (map (\<lambda>(w_i, p_i). w_i * ln p_i)
     (filter (\<lambda>(w_i, p_i). p_i > 0)
        (zip weights (map (\<lambda>n. if n \<le> k then 1 else float_min) [j..<j + length weights])))) = 0"
proof (induction weights arbitrary: j)
  case Nil
  then show ?case by simp
next
  case (Cons w weights)
  have upt: "[j..<j + length (w # weights)] = j # [Suc j..<Suc j + length weights]"
    by (simp add: upt_rec)
  have head: "w \<noteq> 0 \<longrightarrow> j \<le> k" using Cons.prems by auto
  have "\<forall>i < length weights. weights ! i \<noteq> 0 \<longrightarrow> Suc j + i \<le> k"
    using Cons.prems by auto
  then have ih: "sum_list (map (\<lambda>(w_i, p_i). w_i * ln p_i)
     (filter (\<lambda>(w_i, p_i). p_i > 0)
        (zip weights (map (\<lambda>n. if n \<le> k then 1 else float_min) [Suc j..<Suc j + length weights])))) = 0"
    by (rule Cons.IH)
  show ?case
    unfolding upt using head ih by (auto simp: float_min_bounds)
qed

lemma sentence_bleu_identical:
  assumes "t \<noteq> []" and "\<forall>i < length weights. weights ! i \<noteq> 0 \<longrightarrow> Suc i \<le> length t"
  shows "sentence_bleu [t] t weights = 1"
proof -
  have upt: "[1..<Suc (length weights)] = [1..<1 + length weights]" by simp
  have s: "sum_list (map (\<lambda>(w_i, p_i). w_i * ln p_i)
     (filter (\<lambda>(w_i, p_i). p_i > 0)
        (zip weights (map (\<lambda>n. if n \<le> length t then 1 else float_min) [1..<1 + length weights])))) = 0"
    using assms(2) by (intro weighted_logs_identical) simp
  have bp: "brevity_penalty (closest_ref_length [t] (length t)) (length t) = 1"
    using assms(1) by (simp add: brevity_penalty_def)
  have num: "fst (modified_precision [t] t 1) \<noteq> 0"
    using assms(1) by (simp add: modified_precision_identical)
  show ?thesis
    unfolding sentence_bleu_def Let_def method0_identical upt s bp
    using num by simp
qed

lemma ws_support:
  "n \<in> {1, 2, 3, 4} \<Longrightarrow> \<forall>i < length (ws ! (n - 1)). (ws ! (n - 1)) ! i \<noteq> 0 \<longrightarrow> Suc i \<le> n"
  by (auto simp: ws_def nth_Cons split: nat.splits)

lemma upt_weights: "[1..<Suc (length [a, b, c, d])] = [1, 2, 3, 4]"
  by (simp add: upt_rec)

lemma single_token_scores:
  "sentence_bleu [[s]] [s] [a, b, c, d] = exp ((b + c + d) * ln float_min)"
  unfolding sentence_bleu_def Let_def method0_identical upt_weights
  by (simp add: modified_precision_identical brevity_penalty_def float_min_bounds algebra_simps)

lemma sqrt_float_min: "exp (ln float_min / 2) = 1 / 2 ^ 511"
proof -
  define r :: real where "r = 1 / 2 ^ 511"
  have pos: "0 < r" by (simp add: r_def)
  have "float_min = r ^ 2"
    unfolding r_def float_min_def by (simp add: power_divide flip: power_mult)
  moreover have "ln (r ^ 2) = real 2 * ln r"
    by (rule ln_realpow)
  ultimately have "ln float_min = 2 * ln r"
    by simp
  then have "exp (ln float_min / 2) = r"
    using pos by simp
  then show ?thesis by (simp only: r_def)
qed

lemma float_min_neq_0: "float_min \<noteq> 0"
  using float_min_bounds(1) by simp

lemma tok_a: "space_tokens ''a'' = [''a'']"
  by (simp add: space_tokens_def)

lemma tok_abcd: "space_tokens ''a b c d'' = [''a'', ''b'', ''c'', ''d'']"
  by (simp add: space_tokens_def)

subsection \<open>Empty input\<close>

text \<open>
  C1 asks that empty prediction and reference lists be rejected rather than cause a
  division by zero. The code has no check of its input: on empty lists the first average
  divides by the length zero, and the call ends in \<^verbatim>\<open>ZeroDivisionError\<close>.
\<close>

theorem bleu_empty_counterexample:
  "bleu space_tokens sentence_bleu [] [] = Inl ZeroDivisionError"
  by (simp add: bleu_def empty_scores_def upt_1_5)

text \<open>
  C1, as amended: on empty prediction and reference lists \<^verbatim>\<open>bleu\<close> does not return a
  result; it fails with the \<^verbatim>\<open>ZeroDivisionError\<close> of the first average, whatever the
  tokenizer and the scorer are.
\<close>

theorem bleu_empty_divides_by_zero: "bleu nlp sb [] [] = Inl ZeroDivisionError"
  by (simp add: bleu_def empty_scores_def upt_1_5)

subsection \<open>Identical prediction and reference\<close>

text \<open>
  C2 says that a prediction identical to its reference scores 100 for each of BLEU-1 to
  BLEU-4. It fails for a sentence of fewer than four tokens: the one-token sentence has
  no 2-gram, its higher precisions have numerator zero, and only BLEU-1 is 100.
\<close>

theorem bleu_identical_single_token_counterexample:
  "bleu space_tokens sentence_bleu [''a''] [''a''] =
     Inr [(''BLEU1'', 100), (''BLEU2'', 100 / 2 ^ 511),
          (''BLEU3'', 100 * float_min powr 0.66), (''BLEU4'', 100 * float_min powr 0.75)]
   \<and> 100 / 2 ^ 511 < (100::real)"
  unfolding bleu_characterisation
  by (simp add: pair_scores_def scaled_mean_def tok_a ws_def single_token_scores
      sqrt_float_min powr_def float_min_neq_0)

text \<open>
  C2, as amended: on a non-empty list of pairs in which every prediction is identical to
  its reference and has at least \<open>n\<close> tokens, \<^verbatim>\<open>bleu\<close> returns 100 for BLEU-\<open>n\<close>, for
  \<open>n\<close> from 1 to 4; with at least four tokens in every sentence all four scores are 100.
\<close>

theorem bleu_identical_pairs:
  assumes "predict \<noteq> []" and "n \<in> {1, 2, 3, 4}" and "\<forall>s \<in> set predict. n \<le> length (nlp s)"
  shows "\<exists>r. bleu nlp sentence_bleu predict predict = Inr r \<and> map_of r (format_BLEU n) = Some 100"
proof -
  have ne: "zip predict predict \<noteq> []" using assms(1) by (cases predict) simp_all
  have one: "sentence_bleu [nlp s] (nlp s) (ws ! (n - 1)) = 1" if "s \<in> set predict" for s
  proof (rule sentence_bleu_identical)
    from that assms(2,3) show "nlp s \<noteq> []" by fastforce
    from that assms(3) have "n \<le> length (nlp s)" by simp
    with ws_support [OF assms(2)]
    show "\<forall>i < length (ws ! (n - 1)). ws ! (n - 1) ! i \<noteq> 0 \<longrightarrow> Suc i \<le> length (nlp s)"
      by fastforce
  qed
  have hundred: "scaled_mean (pair_scores nlp sentence_bleu (zip predict predict) n) = 100"
  proof (rule scaled_mean_ones)
    show "pair_scores nlp sentence_bleu (zip predict predict) n \<noteq> []"
      using ne by (simp add: pair_scores_def)
    show "\<forall>x \<in> set (pair_scores nlp sentence_bleu (zip predict predict) n). x = 1"
      using one by (auto simp: pair_scores_def zip_same)
  qed
  from bleu_entries [OF ne, of nlp sentence_bleu]
  obtain r where r: "bleu nlp sentence_bleu predict predict = Inr r"
    and entries: "\<forall>n \<in> {1, 2, 3, 4}. map_of r (format_BLEU n)
            = Some (scaled_mean (pair_scores nlp sentence_bleu (zip predict predict) n))"
    by blast
  from entries assms(2) have "map_of r (format_BLEU n)
      = Some (scaled_mean (pair_scores nlp sentence_bleu (zip predict predict) n))"
    by blast
  with r hundred show ?thesis by simp
qed

theorem bleu_identical_pairs_witness:
  "[''a b c d''] \<noteq> [] \<and> (4::nat) \<in> {1, 2, 3, 4} \<and> 4 \<le> length (space_tokens ''a b c d'')
   \<and> (\<exists>r. bleu space_tokens sentence_bleu [''a b c d''] [''a b c d''] = Inr r \<and> map_of r ''BLEU4'' = Some 100)"
  using bleu_identical_pairs [of "[''a b c d'']" 4 space_tokens]
  by (simp add: tok_abcd format_BLEU_simps)

subsection \<open>Range of the scores\<close>

text \<open>
  C3: for non-empty prediction and reference lists, \<^verbatim>\<open>bleu\<close> returns the four keys
  BLEU1 to BLEU4, and each value lies in the closed interval from 0 to 100.
\<close>

theorem bleu_scores_in_range:
  assumes "predict \<noteq> []" and "goal \<noteq> []"
  shows "\<exists>r. bleu nlp sentence_bleu predict goal = Inr r
     \<and> map fst r = [''BLEU1'', ''BLEU2'', ''BLEU3'', ''BLEU4'']
     \<and> (\<forall>v \<in> set (map snd r). 0 \<le> v \<and> v \<le> 100)"
proof -
  have ne: "zip predict goal \<noteq> []"
    using assms by (cases predict; cases goal) simp_all
  have rng: "0 \<le> scaled_mean (pair_scores nlp sentence_bleu (zip predict goal) n)
      \<and> scaled_mean (pair_scores nlp sentence_bleu (zip predict goal) n) \<le> 100"
    if "n \<in> {1, 2, 3, 4}" for n
  proof (rule scaled_mean_bounds)
    show "pair_scores nlp sentence_bleu (zip predict goal) n \<noteq> []"
      using ne by (simp add: pair_scores_def)
    show "\<forall>x \<in> set (pair_scores nlp sentence_bleu (zip predict goal) n). 0 \<le> x \<and> x \<le> 1"
      using sentence_bleu_bounds [OF ws_nonneg [OF that]]
      by (auto simp: pair_scores_def)
  qed
  show ?thesis
    unfolding bleu_characterisation using ne rng [of 1] rng [of 2] rng [of 3] rng [of 4]
    by simp
qed

theorem bleu_scores_in_range_witness:
  "[''a b''] \<noteq> [] \<and> [''a c''] \<noteq> []
   \<and> (\<exists>r. bleu space_tokens sentence_bleu [''a b''] [''a c''] = Inr r
     \<and> map fst r = [''BLEU1'', ''BLEU2'', ''BLEU3'', ''BLEU4'']
     \<and> (\<forall>v \<in> set (map snd r). 0 \<le> v \<and> v \<le> 100))"
  using bleu_scores_in_range [of "[''a b'']" "[''a c'']" space_tokens]
  by simp

subsection \<open>The roles of prediction and goal\<close>

lemma ws_textbook_weights:
  "ws ! 0 = textbook_weights (Suc 0)" "ws ! Suc 0 = textbook_weights 2"
  "ws ! 2 = textbook_weights 3" "ws ! 3 = textbook_weights 4"
  by (simp_all add: ws_def textbook_weights_def)

lemma sum_list_zip_swap:
  "sum_list (map (\<lambda>(x, y). f y x) (zip ys xs)) = sum_list (map (\<lambda>(x, y). f x y) (zip xs ys))"
  by (induction xs ys rule: list_induct2') simp_all

text \<open>
  What the code computes is the aggregation of the specification with the two lists
  exchanged: line 87 passes the prediction's tokens as the reference and the goal's
  tokens as the hypothesis. The weights, the mean and the scaling are those of the
  specification.
\<close>

lemma bleu_is_textbook_with_lists_exchanged:
  "bleu nlp sb predict goal =
     (case bleu_textbook nlp sb goal predict of
        None \<Rightarrow> Inl ZeroDivisionError
      | Some r \<Rightarrow> Inr r)"
proof (cases "zip predict goal = []")
  case True
  then have "zip goal predict = []" by (cases predict; cases goal) simp_all
  with True show ?thesis
    by (simp add: bleu_characterisation bleu_textbook_def)
next
  case False
  then have ne: "zip goal predict \<noteq> []" by (cases predict; cases goal) simp_all
  have len: "length (zip goal predict) = length (zip predict goal)"
    by (simp add: min.commute)
  have sums: "sum_list (map (\<lambda>(prediction, reference). sb [nlp reference] (nlp prediction) w)
                 (zip goal predict))
      = sum_list (map (\<lambda>(sent1, sent2). sb [nlp sent1] (nlp sent2) w) (zip predict goal))" for w
    by (rule sum_list_zip_swap [of "\<lambda>sent1 sent2. sb [nlp sent1] (nlp sent2) w"])
  show ?thesis
    unfolding bleu_characterisation bleu_textbook_def Let_def sums len
    using False ne
    by (simp add: pair_scores_def scaled_mean_def ws_textbook_weights del: length_zip)
qed

lemma tok_ab: "space_tokens ''a b'' = [''a'', ''b'']"
  by (simp add: space_tokens_def)

lemma score_a_against_ab:
  "sentence_bleu [[''a'']] [''a'', ''b''] [1, 0, 0, 0] = 1 / 2"
  "sentence_bleu [[''a'', ''b'']] [''a''] [1, 0, 0, 0] = exp (- 1)"
  by (simp_all add: sentence_bleu_def Let_def upt_weights modified_precision_def ngrams_def
      ref_max_count_def method0_def brevity_penalty_def float_min_bounds)

lemma exp_minus_one_less_half: "exp (- 1) < (1 / 2 :: real)"
proof -
  have "(2::real) < 1 + 1 + 1 ^ 2 / 2" by simp
  also have "\<dots> \<le> exp (1::real)"
    by (rule exp_lower_Taylor_quadratic) simp
  finally have "(2::real) < exp 1" .
  then have "1 / exp (1::real) < 1 / 2"
    by (simp add: field_simps)
  then show ?thesis by (simp add: exp_minus inverse_eq_divide)
qed

text \<open>
  C5 says that \<^verbatim>\<open>bleu\<close> applies the standard formula to each pair and averages. The
  loops, the weights and the mean are as stated, but the arguments of the formula are
  exchanged. For the prediction \<^verbatim>\<open>'a'\<close> and the goal \<^verbatim>\<open>'a b'\<close> the code scores the goal
  against the prediction, unigram precision 1/2 and BLEU-1 = 50, where the formula
  applied to the prediction gives precision 1 with the brevity penalty exp(-1), a BLEU-1
  of about 36.8.
\<close>

theorem bleu_exchanges_reference_and_hypothesis:
  "\<exists>r t. bleu space_tokens sentence_bleu [''a''] [''a b''] = Inr r
     \<and> bleu_textbook space_tokens sentence_bleu [''a''] [''a b''] = Some t
     \<and> map_of r ''BLEU1'' = Some 50
     \<and> map_of t ''BLEU1'' = Some (100 * exp (- 1))
     \<and> 100 * exp (- 1) < (50::real)"
proof -
  have "100 * exp (- 1) < (50::real)"
    using exp_minus_one_less_half by simp
  then show ?thesis
    unfolding bleu_characterisation bleu_textbook_def Let_def
    by (simp add: pair_scores_def scaled_mean_def tok_a tok_ab ws_def textbook_weights_def
        score_a_against_ab)
qed

subsection \<open>Lists of unequal lengths\<close>

text \<open>
  C9: \<^verbatim>\<open>bleu\<close> does not compare the lengths of its two lists. With \<open>k\<close> the smaller of
  the two lengths, the result is the result on the first \<open>k\<close> predictions and the first
  \<open>k\<close> references, and for \<open>k > 0\<close> each score is the mean, over these \<open>k\<close> pairs, of
  the pair's score, scaled by 100.
\<close>

theorem bleu_zip_truncation:
  fixes predict goal :: "string list"
  defines "k \<equiv> min (length predict) (length goal)"
  shows "bleu nlp sb predict goal = bleu nlp sb (take k predict) (take k goal)
    \<and> (0 < k \<longrightarrow> (\<exists>r. bleu nlp sb predict goal = Inr r
          \<and> (\<forall>n \<in> {1, 2, 3, 4}. map_of r (format_BLEU n)
               = Some (((\<Sum>i < k. sb [nlp (predict ! i)] (nlp (goal ! i)) (ws ! (n - 1))) / real k) * 100))))"
proof
  show "bleu nlp sb predict goal = bleu nlp sb (take k predict) (take k goal)"
    unfolding bleu_def k_def zip_take_min ..
  show "0 < k \<longrightarrow> (\<exists>r. bleu nlp sb predict goal = Inr r
          \<and> (\<forall>n \<in> {1, 2, 3, 4}. map_of r (format_BLEU n)
               = Some (((\<Sum>i < k. sb [nlp (predict ! i)] (nlp (goal ! i)) (ws ! (n - 1))) / real k) * 100)))"
  proof
    assume "0 < k"
    then have ne: "zip predict goal \<noteq> []"
      unfolding k_def by (cases predict; cases goal) simp_all
    have mean: "scaled_mean (pair_scores nlp sb (zip predict goal) n)
        = ((\<Sum>i < k. sb [nlp (predict ! i)] (nlp (goal ! i)) (ws ! (n - 1))) / real k) * 100" for n
      unfolding scaled_mean_def pair_scores_def sum_list_zip_nth k_def by simp
    from bleu_entries [OF ne, of nlp sb] show "\<exists>r. bleu nlp sb predict goal = Inr r
          \<and> (\<forall>n \<in> {1, 2, 3, 4}. map_of r (format_BLEU n)
               = Some (((\<Sum>i < k. sb [nlp (predict ! i)] (nlp (goal ! i)) (ws ! (n - 1))) / real k) * 100))"
      unfolding mean by blast
  qed
qed

theorem bleu_zip_truncation_witness:
  "bleu space_tokens sentence_bleu [''a b'', ''c''] [''a b'']
     = bleu space_tokens sentence_bleu [''a b''] [''a b'']
   \<and> 0 < min (length [''a b'', ''c'']) (length [''a b''])
   \<and> (\<exists>r. bleu space_tokens sentence_bleu [''a b'', ''c''] [''a b''] = Inr r
        \<and> (\<forall>n \<in> {1, 2, 3, 4}. map_of r (format_BLEU n)
              = Some (sentence_bleu [space_tokens ''a b''] (space_tokens ''a b'') (ws ! (n - 1)) * 100)))"
proof -
  note t = bleu_zip_truncation [of space_tokens sentence_bleu "[''a b'', ''c'']" "[''a b'']"]
  have "bleu space_tokens sentence_bleu [''a b'', ''c''] [''a b'']
     = bleu space_tokens sentence_bleu [''a b''] [''a b'']"
    using t [THEN conjunct1] by simp
  moreover have "\<exists>r. bleu space_tokens sentence_bleu [''a b'', ''c''] [''a b''] = Inr r
        \<and> (\<forall>n \<in> {1, 2, 3, 4}. map_of r (format_BLEU n)
              = Some (sentence_bleu [space_tokens ''a b''] (space_tokens ''a b'') (ws ! (n - 1)) * 100))"
    using t [THEN conjunct2] by simp
  ultimately show ?thesis by simp
qed

section \<open>Properties of the formatting functions\<close>

text \<open>
  C7: for every example that has the fields \<^verbatim>\<open>instruction_qg\<close>, \<^verbatim>\<open>instruction_ag\<close>,
  \<^verbatim>\<open>context\<close>, \<^verbatim>\<open>question\<close> and \<^verbatim>\<open>answer\<close>, \<^verbatim>\<open>formatting_func_qg\<close> returns the
  prompt built from the QG instruction, the tokenized context and the tokenized answer,
  with the tokenized question as output, and \<^verbatim>\<open>formatting_func_ag\<close> returns the prompt
  built from the AG instruction, the tokenized context and the tokenized question, with
  the tokenized answer as output.
\<close>

theorem formatting_funcs_build_prompts:
  assumes "map_of example ''instruction_qg'' = Some instruction_qg"
    and "map_of example ''instruction_ag'' = Some instruction_ag"
    and "map_of example ''context'' = Some context"
    and "map_of example ''question'' = Some question"
    and "map_of example ''answer'' = Some answer"
  shows "formatting_func_qg tokenize example =
           Inr [(''input_seq'', instruction_prompt instruction_qg (tokenize context)
                                  ''Answer'' (tokenize answer)),
                (''output_seq'', tokenize question)]
       \<and> formatting_func_ag tokenize example =
           Inr [(''input_seq'', instruction_prompt instruction_ag (tokenize context)
                                  ''Question'' (tokenize question)),
                (''output_seq'', tokenize answer)]"
  using assms
  by (simp add: formatting_func_qg_def formatting_func_ag_def getitem_def
      instruction_prompt_def)

theorem formatting_funcs_build_prompts_witness:
  "map_of example_row ''instruction_qg'' = Some ''ask''
   \<and> map_of example_row ''instruction_ag'' = Some ''reply''
   \<and> map_of example_row ''context'' = Some ''a b''
   \<and> map_of example_row ''question'' = Some ''c d''
   \<and> map_of example_row ''answer'' = Some ''e f''
   \<and> formatting_func_qg join_syllables example_row =
         Inr [(''input_seq'', instruction_prompt ''ask'' ''a_b'' ''Answer'' ''e_f''),
              (''output_seq'', ''c_d'')]
   \<and> formatting_func_ag join_syllables example_row =
         Inr [(''input_seq'', instruction_prompt ''reply'' ''a_b'' ''Question'' ''c_d''),
              (''output_seq'', ''e_f'')]"
  using formatting_funcs_build_prompts [of example_row "''ask''" "''reply''" "''a b''"
      "''c d''" "''e f''" join_syllables]
  by (simp add: example_row_def join_syllables_def)

section \<open>Properties of the data preparation and of \<^verbatim>\<open>main\<close>\<close>

lemma task_Config_init: "task (Config_init name) = ''ag''"
  by (simp add: Config_init_def post_init_def)

lemma checkpoint_Config_init: "checkpoint (Config_init name) = ''/kaggle/working/cp''"
  by (simp add: Config_init_def post_init_def)

lemma prepare_data_not_qg:
  "task conf \<noteq> ''qg'' \<Longrightarrow>
   prepare_data lib conf = prepare_with (formatting_func_ag (vi_tokenize lib)) lib conf"
  by (simp add: prepare_data_def prepare_with_def)

lemma prepare_data_Config_init:
  "prepare_data lib (Config_init name)
     = prepare_with (formatting_func_ag (vi_tokenize lib)) lib (Config_init name)"
  by (simp add: prepare_data_not_qg task_Config_init)

lemma demo_prepare:
  "prepare_with (formatting_func_ag (vi_tokenize demo_library)) demo_library conf =
     Inr ([[(''input_seq'', instruction_prompt ''reply'' ''a_b'' ''Question'' ''c_d''), (''output_seq'', ''e_f'')]],
          [[(''input_seq'', instruction_prompt ''reply'' ''a_b'' ''Question'' ''c_d''), (''output_seq'', ''e_f'')]],
          [[(''input_seq'', instruction_prompt ''reply'' ''a_b'' ''Question'' ''c_d''), (''output_seq'', ''e_f'')]])"
  by (simp add: prepare_with_def demo_library_def getitem_def map_remove_def formatting_func_ag_def
      example_row_def join_syllables_def dict_update_def remove_columns_def instruction_prompt_def)

lemma extend_all_concat:
  "extend_all batches (predictions, references) =
     (predictions @ concat (map fst batches), references @ concat (map snd batches))"
  by (induction batches arbitrary: predictions references) auto

lemma compute_metric_keys:
  "snd (compute_metric lib conf model tokenizer tokenized_test files) = Inr outputs \<Longrightarrow>
   map fst outputs = [StrKey ''predictions'', StrKey ''references'']"
  by (auto simp: compute_metric_def extend_all_concat split: sum.splits)

lemma compute_metric_files:
  "path \<noteq> os_path_join (checkpoint conf) ''results.json'' \<Longrightarrow>
   fst (compute_metric lib conf model tokenizer tokenized_test files) path = files path"
  by (auto simp: compute_metric_def extend_all_concat split: sum.splits)

lemma compute_metric_writes_results:
  "generate_decoded lib conf model tokenizer tokenized_test = Inr batches \<Longrightarrow>
   compute_metric lib conf model tokenizer tokenized_test files =
     (files(os_path_join (checkpoint conf) ''results.json'' \<mapsto>
        \<lparr>encoding = ''utf-8'', ensure_ascii = False, indent = 2,
         content = JObject [(''predictions'', JArray (map JString (concat (map fst batches)))),
                            (''references'', JArray (map JString (concat (map snd batches))))]\<rparr>),
      Inr [(StrKey ''predictions'', concat (map fst batches)),
           (StrKey ''references'', concat (map snd batches))])"
  by (simp add: compute_metric_def extend_all_concat json_dump_def)

lemma preprocess_and_train_keys:
  "snd (preprocess_and_train lib conf model tokenizer train_set val_set test_set files) = Inr outputs \<Longrightarrow>
   map fst outputs = [StrKey ''predictions'', StrKey ''references'']"
  by (auto simp: preprocess_and_train_def Let_def dest: compute_metric_keys split: sum.splits prod.splits)

lemma preprocess_and_train_files:
  "path \<noteq> os_path_join (checkpoint conf) ''results.json'' \<Longrightarrow>
   path \<noteq> os_path_join (checkpoint conf) ''origin_refs.json'' \<Longrightarrow>
   fst (preprocess_and_train lib conf model tokenizer train_set val_set test_set files) path = files path"
  by (auto simp: preprocess_and_train_def Let_def compute_metric_files split: sum.splits prod.splits)

lemma preprocess_and_train_keys':
  "preprocess_and_train lib conf model tokenizer train_set val_set test_set files = (files1, Inr outputs) \<Longrightarrow>
   map fst outputs = [StrKey ''predictions'', StrKey ''references'']"
  using preprocess_and_train_keys [of lib conf model tokenizer train_set val_set test_set files outputs]
  by simp

lemma main_setup_keys:
  assumes "snd (main_setup lib name files) = Inr (conf, outputs)"
  shows "map fst outputs = [StrKey ''predictions'', StrKey ''references'']"
  using assms
  by (auto simp: main_setup_def Let_def split: sum.splits prod.splits
      dest: preprocess_and_train_keys')

lemma main_setup_files:
  assumes "path \<noteq> ''/kaggle/working/cp/results.json''"
    and "path \<noteq> ''/kaggle/working/cp/origin_refs.json''"
  shows "fst (main_setup lib name files) path = files path"
proof -
  have p: "path \<noteq> os_path_join (checkpoint (Config_init name)) ''results.json''"
    "path \<noteq> os_path_join (checkpoint (Config_init name)) ''origin_refs.json''"
    using assms by (simp_all add: checkpoint_Config_init os_path_join_def)
  have "fst (preprocess_and_train lib (Config_init name) model tokenizer tr va te files) path
      = files path" for model tokenizer tr va te
    using p by (rule preprocess_and_train_files)
  then have "preprocess_and_train lib (Config_init name) model tokenizer tr va te files
      = (files1, r) \<Longrightarrow> files1 path = files path" for model tokenizer tr va te files1 r
    by (metis fst_conv)
  then show ?thesis
    by (auto simp: main_setup_def Let_def split: sum.splits prod.splits)
qed

lemma main_scoring_KeyError:
  "map fst outputs = [StrKey ''predictions'', StrKey ''references''] \<Longrightarrow>
   main_scoring lib conf outputs files = (files, Inl KeyError)"
proof -
  assume "map fst outputs = [StrKey ''predictions'', StrKey ''references'']"
  then obtain p r where "outputs = [(StrKey ''predictions'', p), (StrKey ''references'', r)]"
    by (auto simp: map_eq_Cons_conv)
  then have "getitem_key outputs (IntKey 0) = Inl KeyError"
    by (simp add: getitem_key_def)
  then show ?thesis by (simp add: main_scoring_def)
qed

lemma demo_main_setup:
  "main_setup demo_library ''vit5'' Map.empty =
     (Map.empty(''/kaggle/working/cp/origin_refs.json'' \<mapsto>
          json_dump (JObject [(''references'', JArray [JString ''e_f''])]),
        ''/kaggle/working/cp/results.json'' \<mapsto>
          json_dump (JObject [(''predictions'', JArray [JString ''e f'']),
                              (''references'', JArray [JString ''e_f''])])),
      Inr (Config_init ''vit5'', [(StrKey ''predictions'', [''e f'']), (StrKey ''references'', [''e_f''])]))"
  unfolding main_setup_def Let_def prepare_data_Config_init demo_prepare
  by (simp add: demo_library_def preprocess_and_train_def compute_metric_def getitem_def
      checkpoint_Config_init os_path_join_def)

subsection \<open>The task that \<^verbatim>\<open>main\<close> runs\<close>

lemma main_setup_is_ag: "main_setup lib name files = main_setup_ag lib name files"
  by (simp add: main_setup_def main_setup_ag_def prepare_data_Config_init)

lemma main_is_ag: "main lib name files = main_ag lib name files"
  by (simp add: main_def main_ag_def main_setup_is_ag)

lemma demo_main:
  "main demo_library ''vit5'' Map.empty =
     (Map.empty(''/kaggle/working/cp/origin_refs.json'' \<mapsto>
          json_dump (JObject [(''references'', JArray [JString ''e_f''])]),
        ''/kaggle/working/cp/results.json'' \<mapsto>
          json_dump (JObject [(''predictions'', JArray [JString ''e f'']),
                              (''references'', JArray [JString ''e_f''])])),
      Inl KeyError)"
  by (simp add: main_def demo_main_setup main_scoring_KeyError)

text \<open>
  C10: every invocation of \<^verbatim>\<open>main\<close> runs the answer-generation task. \<^verbatim>\<open>main\<close> builds its
  configuration from the model name alone, so the task is always the default \<^verbatim>\<open>'ag'\<close>;
  \<^verbatim>\<open>prepare_data\<close> formats with \<^verbatim>\<open>formatting_func_ag\<close> for every task other than the
  exact string \<^verbatim>\<open>'qg'\<close>; and so \<^verbatim>\<open>main\<close>, in its first part and as a whole, is \<^verbatim>\<open>main\<close>
  with the answer-generation preparation alone, in which \<^verbatim>\<open>formatting_func_qg\<close> does not
  occur.
\<close>

theorem main_runs_answer_generation:
  "task (Config_init name) = ''ag''
   \<and> (task conf \<noteq> ''qg'' \<longrightarrow>
        prepare_data lib conf = prepare_with (formatting_func_ag (vi_tokenize lib)) lib conf)
   \<and> prepare_data lib (Config_init name)
       = prepare_with (formatting_func_ag (vi_tokenize lib)) lib (Config_init name)
   \<and> main_setup lib name files = main_setup_ag lib name files
   \<and> main lib name files = main_ag lib name files"
  by (simp add: task_Config_init prepare_data_not_qg prepare_data_Config_init
      main_setup_is_ag main_is_ag)

theorem main_runs_answer_generation_witness:
  "task (Config_init ''vit5'') = ''ag''
   \<and> task ((Config_init ''vit5'')\<lparr>task := ''QG''\<rparr>) \<noteq> ''qg''
   \<and> prepare_data demo_library ((Config_init ''vit5'')\<lparr>task := ''QG''\<rparr>)
       = prepare_with (formatting_func_ag (vi_tokenize demo_library)) demo_library
           ((Config_init ''vit5'')\<lparr>task := ''QG''\<rparr>)
   \<and> prepare_data demo_library (Config_init ''vit5'')
       = Inr ([[(''input_seq'', instruction_prompt ''reply'' ''a_b'' ''Question'' ''c_d''),
                (''output_seq'', ''e_f'')]],
              [[(''input_seq'', instruction_prompt ''reply'' ''a_b'' ''Question'' ''c_d''),
                (''output_seq'', ''e_f'')]],
              [[(''input_seq'', instruction_prompt ''reply'' ''a_b'' ''Question'' ''c_d''),
                (''output_seq'', ''e_f'')]])
   \<and> main_ag demo_library ''vit5'' Map.empty =
       (Map.empty(''/kaggle/working/cp/origin_refs.json'' \<mapsto>
            json_dump (JObject [(''references'', JArray [JString ''e_f''])]),
          ''/kaggle/working/cp/results.json'' \<mapsto>
            json_dump (JObject [(''predictions'', JArray [JString ''e f'']),
                                (''references'', JArray [JString ''e_f''])])),
        Inl KeyError)"
  using main_runs_answer_generation [of "''vit5''" "(Config_init ''vit5'')\<lparr>task := ''QG''\<rparr>"
      demo_library Map.empty]
  by (simp add: demo_prepare demo_main)

subsection \<open>The lookup \<^verbatim>\<open>outputs[0]\<close>\<close>

text \<open>
  C8: whenever the first part of \<^verbatim>\<open>main\<close> succeeds, \<^verbatim>\<open>preprocess_and_train\<close> having
  returned the dictionary of \<^verbatim>\<open>compute_metric\<close>, the keys of that dictionary are the two
  strings \<^verbatim>\<open>'predictions'\<close> and \<^verbatim>\<open>'references'\<close>, the lookup \<^verbatim>\<open>outputs[0]\<close> of line 241
  raises \<^verbatim>\<open>KeyError\<close>, and \<^verbatim>\<open>main\<close> ends there: the files are those that the first part
  left, and the scoring of lines 242 to 270 is not reached.
\<close>

theorem main_raises_KeyError:
  assumes "snd (main_setup lib name files) = Inr (conf, outputs)"
  shows "map fst outputs = [StrKey ''predictions'', StrKey ''references'']
     \<and> main lib name files = (fst (main_setup lib name files), Inl KeyError)"
proof -
  have keys: "map fst outputs = [StrKey ''predictions'', StrKey ''references'']"
    using assms by (rule main_setup_keys)
  obtain files1 where s: "main_setup lib name files = (files1, Inr (conf, outputs))"
    using assms by (cases "main_setup lib name files") simp
  have "main lib name files = main_scoring lib conf outputs files1"
    by (simp add: main_def s)
  with keys show ?thesis
    by (simp add: main_scoring_KeyError s)
qed

theorem main_raises_KeyError_witness:
  "snd (main_setup demo_library ''vit5'' Map.empty) =
     Inr (Config_init ''vit5'', [(StrKey ''predictions'', [''e f'']), (StrKey ''references'', [''e_f''])])
   \<and> main demo_library ''vit5'' Map.empty = (fst (main_setup demo_library ''vit5'' Map.empty), Inl KeyError)"
  using main_raises_KeyError [of demo_library "''vit5''" Map.empty "Config_init ''vit5''"
      "[(StrKey ''predictions'', [''e f'']), (StrKey ''references'', [''e_f''])]"]
  by (simp add: demo_main_setup)

subsection \<open>The scores file\<close>

text \<open>
  C6 says that \<^verbatim>\<open>compute_metric\<close> writes the results file and \<^verbatim>\<open>main\<close> writes the
  scores file. The results file is written as stated (\<open>compute_metric_writes_results\<close>).
  The scores file is not: no run of \<^verbatim>\<open>main\<close> returns normally, and none writes
  \<^verbatim>\<open>scores.json\<close> in the checkpoint directory, because of the lookup of line 241.
\<close>

theorem main_never_writes_scores:
  "snd (main lib name files) \<noteq> Inr ()
   \<and> fst (main lib name files) ''/kaggle/working/cp/scores.json''
       = files ''/kaggle/working/cp/scores.json''"
proof (cases "main_setup lib name files")
  case (Pair files1 r)
  have untouched: "files1 ''/kaggle/working/cp/scores.json'' = files ''/kaggle/working/cp/scores.json''"
    using main_setup_files [of "''/kaggle/working/cp/scores.json''" lib name files]
    by (simp add: Pair)
  show ?thesis
  proof (cases r)
    case (Inl e)
    then show ?thesis using untouched by (simp add: main_def Pair)
  next
    case (Inr co)
    obtain conf outputs where co: "co = (conf, outputs)" by (cases co)
    have "map fst outputs = [StrKey ''predictions'', StrKey ''references'']"
      using main_setup_keys [of lib name files conf outputs] by (simp add: Pair Inr co)
    then have "main lib name files = (files1, Inl KeyError)"
      by (simp add: main_def Pair Inr co main_scoring_KeyError)
    then show ?thesis using untouched by simp
  qed
qed

end
